theory Spec2Isabelle
  imports Complex_Main "HOL-Library.Multiset"
begin

section \<open>Data model (types.ts)\<close>

text \<open>
  A TypeScript \<open>number\<close> is modelled as a real number: the counters the program handles are
  small integers and the experience score is a multiple of one half, on which the
  arithmetic of the source (\<open>+\<close>, \<open>-\<close>, \<open>*\<close>, \<open>Math.max\<close>, comparison) is exact.
\<close>

type_synonym number = real

text \<open>
  \<open>DifficultyStats\<close> holds the six numeric fields. \<open>SnapshotUserStats\<close> adds
  \<open>username\<close> and the optional \<open>name\<close>; \<open>UserStats\<close> has the same fields and, in addition,
  \<open>rank\<close> and the optional, nullable \<open>error\<close>. An absent (\<open>undefined\<close>) or \<open>null\<close> field
  is \<open>None\<close>.
\<close>

record DifficultyStats =
  jobsApplied :: number
  easy :: number
  medium :: number
  hard :: number
  total :: number
  xp :: number

record SnapshotUserStats = DifficultyStats +
  username :: string
  name :: "string option"

record UserStats = SnapshotUserStats +
  rank :: number
  error :: "string option"

section \<open>Job status (App.tsx, getNextStatus)\<close>

definition STATUS_SEQUENCE :: "string list" where
  "STATUS_SEQUENCE = [''Applied'', ''Assessment'', ''Interview'', ''Offer'']"

text \<open>\<open>Array.prototype.indexOf\<close>: the first index holding the value, or \<open>-1\<close>.\<close>

fun indexOf :: "'a list \<Rightarrow> 'a \<Rightarrow> int" where
  "indexOf [] x = -1"
| "indexOf (y # ys) x =
     (if y = x then 0
      else (let i = indexOf ys x in if i = -1 then -1 else i + 1))"

definition getNextStatus :: "string \<Rightarrow> string" where
  "getNextStatus current =
     (let idx = indexOf STATUS_SEQUENCE current in
      if idx = -1 then ''Applied''
      else STATUS_SEQUENCE ! nat ((idx + 1) mod int (length STATUS_SEQUENCE)))"

section \<open>Progress engine (App.tsx, computeProgress)\<close>

text \<open>\<open>x || 0\<close> on a number: a falsy number (zero) gives the right operand.\<close>

definition or0 :: "number \<Rightarrow> number" where
  "or0 x = (if x = 0 then 0 else x)"

definition computeProgress :: "UserStats \<Rightarrow> SnapshotUserStats option \<Rightarrow> UserStats" where
  "computeProgress current baseline =
     (case baseline of
        None \<Rightarrow>
          current\<lparr>jobsApplied := 0, easy := 0, medium := 0, hard := 0, total := 0,
                   xp := 0, rank := 0\<rparr>
      | Some b \<Rightarrow>
          (let jobsDelta = max 0 (jobsApplied current - or0 (jobsApplied b));
               easyDelta = max 0 (easy current - easy b);
               mediumDelta = max 0 (medium current - medium b);
               hardDelta = max 0 (hard current - hard b);
               totalDelta = max 0 (total current - total b);
               xpDelta = (jobsDelta * 0.5) + (easyDelta * 1) + (mediumDelta * 2) + (hardDelta * 4)
           in \<lparr>jobsApplied = jobsDelta, easy = easyDelta, medium = mediumDelta,
               hard = hardDelta, total = totalDelta, xp = xpDelta,
               username = username current, name = name current,
               rank = 0, error = error current\<rparr>))"

text \<open>
  A user with baseline counts 5, 2, 1 (total 8, one job) who has since solved two more easy
  problems and applied to one more job.
\<close>

definition scenario_baseline :: SnapshotUserStats where
  "scenario_baseline =
     \<lparr>jobsApplied = 1, easy = 5, medium = 2, hard = 1, total = 8, xp = 13,
      username = ''a'', name = None\<rparr>"

definition scenario_current :: UserStats where
  "scenario_current =
     \<lparr>jobsApplied = 2, easy = 7, medium = 2, hard = 1, total = 10, xp = 16,
      username = ''a'', name = None, rank = 1, error = None\<rparr>"

section \<open>Ranking (App.tsx, loadAllStats: sortAndRank)\<close>

text \<open>
  \<open>Array.prototype.sort\<close> with a comparator is a stable sort: \<open>a\<close> is placed before \<open>b\<close>
  when \<open>cmp a b\<close> is negative, and elements that compare equal keep their order. It is
  modelled as an insertion sort that runs over the array from its end, placing each element
  in front of the first element it does not compare greater than.
\<close>

fun insert_by :: "('a \<Rightarrow> 'a \<Rightarrow> number) \<Rightarrow> 'a \<Rightarrow> 'a list \<Rightarrow> 'a list" where
  "insert_by cmp x [] = [x]"
| "insert_by cmp x (y # ys) = (if cmp x y \<le> 0 then x # y # ys else y # insert_by cmp x ys)"

definition sort_by :: "('a \<Rightarrow> 'a \<Rightarrow> number) \<Rightarrow> 'a list \<Rightarrow> 'a list" where
  "sort_by cmp xs = foldr (insert_by cmp) xs []"

text \<open>\<open>Array.prototype.map\<close> with a callback that also takes the index.\<close>

definition mapi :: "('a \<Rightarrow> nat \<Rightarrow> 'b) \<Rightarrow> 'a list \<Rightarrow> 'b list" where
  "mapi f xs = map (\<lambda>(index, x). f x index) (enumerate 0 xs)"

text \<open>The comparator of \<open>sortAndRank\<close>: \<open>if (b.xp === a.xp) return b.total - a.total; return b.xp - a.xp\<close>.\<close>

definition byXpThenTotal :: "UserStats \<Rightarrow> UserStats \<Rightarrow> number" where
  "byXpThenTotal a b = (if xp b = xp a then total b - total a else xp b - xp a)"

definition sortAndRank :: "UserStats list \<Rightarrow> UserStats list" where
  "sortAndRank items =
     mapi (\<lambda>stat index. stat\<lparr>rank := real index + 1\<rparr>) (sort_by byXpThenTotal items)"

text \<open>
  The order the ranking is meant to realise: descending xp, ties broken by descending total.
\<close>

definition ranksBefore :: "UserStats \<Rightarrow> UserStats \<Rightarrow> bool" where
  "ranksBefore a b = (xp a > xp b \<or> (xp a = xp b \<and> total a \<ge> total b))"

section \<open>Baseline snapshots (types.ts)\<close>

datatype SnapshotPeriod = weekly | monthly | yearly

record LeaderboardSnapshot =
  id' :: "string option"
  period :: SnapshotPeriod
  periodKey :: string
  createdAt :: string
  users :: "SnapshotUserStats list"

section \<open>Previous-period leaderboard (App.tsx, computePrevStats)\<close>

text \<open>\<open>startUser?.field || 0\<close>: zero when the start user is absent or the field is zero.\<close>

definition or0_opt :: "number option \<Rightarrow> number" where
  "or0_opt v = (case v of None \<Rightarrow> 0 | Some x \<Rightarrow> or0 x)"

text \<open>The callback mapped over \<open>endSnap.users\<close>, after \<open>startUser\<close> has been looked up.\<close>

definition prevDelta :: "SnapshotUserStats \<Rightarrow> SnapshotUserStats option \<Rightarrow> UserStats" where
  "prevDelta endUser startUser =
     (let jobsDelta = max 0 (jobsApplied endUser - or0_opt (map_option jobsApplied startUser));
          easyDelta = max 0 (easy endUser - or0_opt (map_option easy startUser));
          mediumDelta = max 0 (medium endUser - or0_opt (map_option medium startUser));
          hardDelta = max 0 (hard endUser - or0_opt (map_option hard startUser));
          xpDelta = (jobsDelta * 0.5) + (easyDelta * 1) + (mediumDelta * 2) + (hardDelta * 4)
      in \<lparr>jobsApplied = jobsDelta, easy = easyDelta, medium = mediumDelta, hard = hardDelta,
          total = easyDelta + mediumDelta + hardDelta, xp = xpDelta,
          username = username endUser, name = name endUser, rank = 0, error = None\<rparr>)"

text \<open>\<open>startSnap?.users.find(u => u.username === endUser.username)\<close>\<close>

definition startUserOf :: "LeaderboardSnapshot option \<Rightarrow> SnapshotUserStats \<Rightarrow> SnapshotUserStats option" where
  "startUserOf startSnap endUser =
     (case startSnap of
        None \<Rightarrow> None
      | Some s \<Rightarrow> find (\<lambda>u. username u = username endUser) (users s))"

text \<open>
  The function stores its result with \<open>setPrevLeaderboardStats\<close>; the model returns the
  list it stores.
\<close>

definition computePrevStats :: "LeaderboardSnapshot \<Rightarrow> LeaderboardSnapshot option \<Rightarrow> UserStats list" where
  "computePrevStats endSnap startSnap =
     (let stats = map (\<lambda>endUser. prevDelta endUser (startUserOf startSnap endUser)) (users endSnap)
      in mapi (\<lambda>s i. s\<lparr>rank := real i + 1\<rparr>) (sort_by (\<lambda>a b. xp b - xp a) stats))"

text \<open>
  A user whose easy count went down from 5 to 3 and whose medium count went up from 2 to 5
  between the two snapshots; in both, total is the sum of the three difficulty counts.
\<close>

definition prev_start_example :: LeaderboardSnapshot where
  "prev_start_example =
     \<lparr>id' = Some ''s1'', period = weekly, periodKey = ''2026-W01'',
      createdAt = ''2025-12-29T08:00:00.000Z'',
      users = [\<lparr>jobsApplied = 0, easy = 5, medium = 2, hard = 0, total = 7, xp = 9,
                 username = ''ann'', name = None\<rparr>]\<rparr>"

definition prev_end_example :: LeaderboardSnapshot where
  "prev_end_example =
     \<lparr>id' = Some ''s2'', period = weekly, periodKey = ''2026-W02'',
      createdAt = ''2026-01-05T08:00:00.000Z'',
      users = [\<lparr>jobsApplied = 0, easy = 3, medium = 5, hard = 0, total = 8, xp = 13,
                 username = ''ann'', name = None\<rparr>]\<rparr>"

section \<open>Snapshot store (utils/snapshotUtils.ts)\<close>

text \<open>
  The \<open>leaderboardSnapshots\<close> collection is a list of documents, each a document id with
  its data, in the order a query returns them. What the program takes from its surroundings
  is passed in explicitly: the clock (\<open>getWeeklyPeriodKey()\<close>, \<open>getMonthlyPeriodKey()\<close>,
  \<open>getYearlyPeriodKey()\<close> and \<open>new Date().toISOString()\<close> at the time of the call) and the
  outcome of each database call, which may reject.
\<close>

type_synonym snapshot_doc = "string \<times> LeaderboardSnapshot"

type_synonym collection = "snapshot_doc list"

record clock =
  weeklyKey :: string
  monthlyKey :: string
  yearlyKey :: string
  nowISO :: string










section \<open>Patching the current snapshots with a new user (App.tsx, addUserToCurrentSnapshots)\<close>

definition isCurrent :: "clock \<Rightarrow> LeaderboardSnapshot \<Rightarrow> bool" where
  "isCurrent keys data =
     ((period data = weekly \<and> periodKey data = weeklyKey keys) \<or>
      (period data = monthly \<and> periodKey data = monthlyKey keys) \<or>
      (period data = yearly \<and> periodKey data = yearlyKey keys))"

text \<open>\<open>updateDoc(doc(db, 'leaderboardSnapshots', id), { users: us })\<close>\<close>

definition updateDoc_users :: "string \<Rightarrow> SnapshotUserStats list \<Rightarrow> collection \<Rightarrow> collection" where
  "updateDoc_users docId us coll =
     map (\<lambda>d. if fst d = docId then (fst d, (snd d)\<lparr>users := us\<rparr>) else d) coll"

definition newUserSnapshot :: "string \<Rightarrow> UserStats \<Rightarrow> string \<Rightarrow> SnapshotUserStats" where
  "newUserSnapshot uname stats nm =
     \<lparr>jobsApplied = jobsApplied stats, easy = easy stats, medium = medium stats,
      hard = hard stats, total = total stats, xp = xp stats,
      username = uname, name = Some nm\<rparr>"

text \<open>
  The callback run for each document read: \<open>docSnap\<close> is the document as \<open>getDocs\<close>
  returned it, \<open>updateOk\<close> tells whether \<open>updateDoc\<close> on a document id resolves, and the
  collection is the one the update is applied to.
\<close>

definition patchDoc ::
  "clock \<Rightarrow> (string \<Rightarrow> bool) \<Rightarrow> string \<Rightarrow> UserStats \<Rightarrow> string \<Rightarrow> snapshot_doc \<Rightarrow> collection
     \<Rightarrow> collection" where
  "patchDoc keys updateOk uname stats nm docSnap coll =
     (let data = snd docSnap in
      if isCurrent keys data \<and> \<not> list_ex (\<lambda>u. username u = uname) (users data)
      then (if updateOk (fst docSnap)
            then updateDoc_users (fst docSnap) (users data @ [newUserSnapshot uname stats nm]) coll
            else coll)
      else coll)"

text \<open>
  All callbacks are started on the documents read by one \<open>getDocs\<close>; an update that rejects
  does not undo the others, and the \<open>catch\<close> only logs.
\<close>

definition addUserToCurrentSnapshots ::
  "clock \<Rightarrow> bool \<Rightarrow> (string \<Rightarrow> bool) \<Rightarrow> string \<Rightarrow> UserStats \<Rightarrow> string \<Rightarrow> collection \<Rightarrow> collection" where
  "addUserToCurrentSnapshots keys readOk updateOk uname stats nm coll =
     (if \<not> readOk then coll
      else foldl (\<lambda>c docSnap. patchDoc keys updateOk uname stats nm docSnap c) coll coll)"

text \<open>
  What the patch does to the stored document \<open>d\<close> when the callback runs on the document
  \<open>e\<close> read by \<open>getDocs\<close>: the update replaces the users of the document with the id of
  \<open>e\<close> by the users read from \<open>e\<close> followed by the new entry.
\<close>

definition patchOne ::
  "clock \<Rightarrow> (string \<Rightarrow> bool) \<Rightarrow> string \<Rightarrow> UserStats \<Rightarrow> string \<Rightarrow> snapshot_doc \<Rightarrow> snapshot_doc
     \<Rightarrow> snapshot_doc" where
  "patchOne keys updateOk uname stats nm e d =
     (if fst d = fst e \<and> isCurrent keys (snd e)
         \<and> \<not> list_ex (\<lambda>u. username u = uname) (users (snd e)) \<and> updateOk (fst e)
      then (fst d, (snd d)\<lparr>users := users (snd e) @ [newUserSnapshot uname stats nm]\<rparr>)
      else d)"

section \<open>Example data\<close>

definition clock_example :: clock where
  "clock_example =
     \<lparr>weeklyKey = ''2026-W45'', monthlyKey = ''2026-11'', yearlyKey = ''2026'',
      nowISO = ''2026-11-02T18:00:00.000Z''\<rparr>"


definition ann_stats :: UserStats where
  "ann_stats =
     \<lparr>jobsApplied = 2, easy = 7, medium = 2, hard = 1, total = 10, xp = 16,
      username = ''ann'', name = Some ''Ann'', rank = 1, error = None\<rparr>"

definition bob_stats :: UserStats where
  "bob_stats =
     \<lparr>jobsApplied = 0, easy = 4, medium = 0, hard = 0, total = 4, xp = 4,
      username = ''bob'', name = Some ''Bob'', rank = 2, error = None\<rparr>"



definition weekly_doc_example :: snapshot_doc where
  "weekly_doc_example =
     (''doc1'',
      \<lparr>id' = None, period = weekly, periodKey = ''2026-W45'',
       createdAt = ''2026-11-02T08:00:00.000Z'',
       users = [\<lparr>jobsApplied = 1, easy = 5, medium = 2, hard = 1, total = 8, xp = 13.5,
                 username = ''ann'', name = Some ''Ann''\<rparr>]\<rparr>)"

definition old_doc_example :: snapshot_doc where
  "old_doc_example =
     (''doc0'',
      \<lparr>id' = None, period = weekly, periodKey = ''2026-W44'',
       createdAt = ''2026-10-26T08:00:00.000Z'', users = []\<rparr>)"

definition coll_example :: collection where
  "coll_example = [old_doc_example, weekly_doc_example]"

section \<open>Stats fetcher (App.tsx, fetchUserStats)\<close>

text \<open>
  What the network does is an input of the model: \<open>net k\<close> is the outcome of the
  \<open>k\<close>-th call of \<open>fetch(url)\<close> made by one call of \<open>fetchUserStats\<close>, counting from
  zero. A call of \<open>fetch\<close> either rejects with a thrown value or resolves with a response;
  \<open>response.json()\<close> either rejects or resolves with the parsed body. A thrown value is an
  \<open>Error\<close> object with its message, or something that is not an \<open>Error\<close>.
\<close>

datatype thrown = Error string | NotAnError

text \<open>
  The fields of the parsed body that the function reads. \<open>status\<close> is \<open>None\<close> when the
  field is missing or not a string. \<open>message\<close> is a string, a falsy value that is not a string
  (missing, \<open>null\<close>, \<open>0\<close>, \<open>false\<close>), or a truthy value that is not a string, on which
  the call of \<open>toLowerCase\<close> throws the given error. The four counts are numbers, as the
  declared type \<open>LeetCodeResponse\<close> says.
\<close>

datatype message_value = Message string | NoMessage | NotAString thrown

record LeetCodeResponse =
  json_status :: "string option"
  message :: message_value
  totalSolved :: number
  easySolved :: number
  mediumSolved :: number
  hardSolved :: number

text \<open>
  The body of a response either gives an object, or it does not: \<open>response.json()\<close> rejects
  with the given error, or it resolves with \<open>null\<close> and reading \<open>data.status\<close> throws it.
\<close>

datatype body = Unparsable thrown | Parsed LeetCodeResponse

record response =
  ok :: bool
  status :: nat
  json :: body

datatype outcome = Rejected thrown | Responded response

subsection \<open>Strings\<close>

text \<open>\<open>String.prototype.toLowerCase\<close>, on the ASCII letters.\<close>

definition toLowerChar :: "char \<Rightarrow> char" where
  "toLowerChar ch =
     (case map_of (zip ''ABCDEFGHIJKLMNOPQRSTUVWXYZ'' ''abcdefghijklmnopqrstuvwxyz'') ch of
        None \<Rightarrow> ch
      | Some l \<Rightarrow> l)"

definition toLowerCase :: "string \<Rightarrow> string" where
  "toLowerCase s = map toLowerChar s"

fun startsWith :: "string \<Rightarrow> string \<Rightarrow> bool" where
  "startsWith s [] = True"
| "startsWith [] (c # cs) = False"
| "startsWith (x # xs) (c # cs) = (x = c \<and> startsWith xs cs)"

text \<open>\<open>String.prototype.includes\<close>\<close>

fun str_includes :: "string \<Rightarrow> string \<Rightarrow> bool" where
  "str_includes [] sub = (sub = [])"
| "str_includes (x # xs) sub = (startsWith (x # xs) sub \<or> str_includes xs sub)"

text \<open>The decimal digits of a number, as a template literal prints it.\<close>

fun show_nat :: "nat \<Rightarrow> string" where
  "show_nat n =
     (if n < 10 then [''0123456789'' ! n]
      else show_nat (n div 10) @ [''0123456789'' ! (n mod 10)])"

subsection \<open>The records returned\<close>

text \<open>Every record returned on a failure: zero counts and score, and the error text.\<close>

definition failed :: "string \<Rightarrow> number \<Rightarrow> string \<Rightarrow> UserStats" where
  "failed uname jobs msg =
     \<lparr>jobsApplied = jobs, easy = 0, medium = 0, hard = 0, total = 0, xp = 0,
      username = uname, name = None, rank = 0, error = Some msg\<rparr>"

definition succeeded :: "string \<Rightarrow> number \<Rightarrow> LeetCodeResponse \<Rightarrow> UserStats" where
  "succeeded uname jobs data =
     (let easy' = easySolved data; medium' = mediumSolved data; hard' = hardSolved data;
          total' = totalSolved data;
          xp' = (jobs * 0.5) + (easy' * 1) + (medium' * 2) + (hard' * 4)
      in \<lparr>jobsApplied = jobs, easy = easy', medium = medium', hard = hard', total = total',
          xp = xp', username = uname, name = None, rank = 0, error = None\<rparr>)"

subsection \<open>The retry loop\<close>

definition maxRetries :: nat where
  "maxRetries = 3"

text \<open>
  The loop state: the variable \<open>attempt\<close>, and, for the record, the number of calls of
  \<open>fetch\<close> made and the delays slept so far, in milliseconds.
\<close>

record loop_state =
  attempt :: nat
  calls :: nat
  slept :: "nat list"

text \<open>\<open>attempt++; const backoff = 1000 * Math.pow(2, attempt - 1); await ... setTimeout(r, backoff)\<close>\<close>

definition backoff :: "nat \<Rightarrow> nat" where
  "backoff a = 1000 * 2 ^ (a - 1)"

definition retry :: "loop_state \<Rightarrow> loop_state" where
  "retry s = (let a = attempt s + 1 in s\<lparr>attempt := a, slept := slept s @ [backoff a]\<rparr>)"

text \<open>
  The test on the body of an unsuccessful response:
  \<open>maybeJson && maybeJson.status === 'error' && typeof maybeJson.message === 'string'\<close> and
  \<open>maybeJson.message.toLowerCase().includes('user does not exist')\<close>, where \<open>maybeJson\<close> is
  \<open>null\<close> when the body does not parse.
\<close>

definition errorBodySaysNoUser :: "body \<Rightarrow> bool" where
  "errorBodySaysNoUser b =
     (case b of
        Unparsable _ \<Rightarrow> False
      | Parsed maybeJson \<Rightarrow>
          json_status maybeJson = Some ''error'' \<and>
          (case message maybeJson of
             Message m \<Rightarrow> str_includes (toLowerCase m) ''user does not exist''
           | _ \<Rightarrow> False))"

text \<open>
  The test on the body of a successful response:
  \<open>data.status === 'error' && data.message && data.message.toLowerCase().includes(...)\<close>.
  An empty message is falsy; a truthy message that is not a string makes the test throw.
\<close>

definition dataSaysNoUser :: "LeetCodeResponse \<Rightarrow> thrown + bool" where
  "dataSaysNoUser data =
     (if json_status data = Some ''error'' then
        (case message data of
           Message m \<Rightarrow> Inr (m \<noteq> [] \<and> str_includes (toLowerCase m) ''user does not exist'')
         | NoMessage \<Rightarrow> Inr False
         | NotAString e \<Rightarrow> Inl e)
      else Inr False)"

text \<open>
  One run of the \<open>try\<close> block, given the outcome of its \<open>fetch\<close>: it returns a record, takes
  the \<open>continue\<close> of the 5xx branch (after \<open>attempt++\<close> and the delay, which the loop below
  applies), or throws.
\<close>

datatype step = Return UserStats | Continue | Throw thrown

definition tryBlock :: "outcome \<Rightarrow> string \<Rightarrow> number \<Rightarrow> nat \<Rightarrow> step" where
  "tryBlock out uname jobs attempt' =
     (case out of
        Rejected e \<Rightarrow> Throw e
      | Responded response \<Rightarrow>
          if \<not> ok response then
            (if status response \<ge> 500 \<and> attempt' < maxRetries then Continue
             else if errorBodySaysNoUser (json response)
               then Return (failed uname jobs ''this is not a leetcode user'')
               else Throw (Error (''HTTP error! status: '' @ show_nat (status response))))
          else
            (case json response of
               Unparsable e \<Rightarrow> Throw e
             | Parsed data \<Rightarrow>
                 (case dataSaysNoUser data of
                    Inl e \<Rightarrow> Throw e
                  | Inr True \<Rightarrow> Return (failed uname jobs ''this is not a leetcode user'')
                  | Inr False \<Rightarrow>
                      if json_status data \<noteq> Some ''success''
                      then Return (failed uname jobs ''User not found'')
                      else Return (succeeded uname jobs data))))"

text \<open>\<open>error instanceof Error ? error.message : 'LeetCode API unavailable'\<close>\<close>

definition messageOf :: "thrown \<Rightarrow> string" where
  "messageOf e = (case e of Error m \<Rightarrow> m | NotAnError \<Rightarrow> ''LeetCode API unavailable'')"

function fetchLoop :: "(nat \<Rightarrow> outcome) \<Rightarrow> string \<Rightarrow> number \<Rightarrow> loop_state \<Rightarrow> UserStats \<times> loop_state" where
  "fetchLoop net uname jobs s =
     (if attempt s \<le> maxRetries then
        (let s1 = s\<lparr>calls := calls s + 1\<rparr> in
         case tryBlock (net (calls s)) uname jobs (attempt s) of
           Return r \<Rightarrow> (r, s1)
         | Continue \<Rightarrow> fetchLoop net uname jobs (retry s1)
         | Throw e \<Rightarrow>
             if attempt s1 \<ge> maxRetries then (failed uname jobs (messageOf e), s1)
             else fetchLoop net uname jobs (retry s1))
      else (failed uname jobs ''Error fetching data'', s))"
  by pat_completeness auto
termination
  by (relation "measure (\<lambda>(net, uname, jobs, s). Suc maxRetries - attempt s)")
     (auto simp: retry_def Let_def)

declare fetchLoop.simps [simp del]

definition fetchUserStats :: "(nat \<Rightarrow> outcome) \<Rightarrow> string \<Rightarrow> number \<Rightarrow> UserStats \<times> loop_state" where
  "fetchUserStats net uname jobs = fetchLoop net uname jobs \<lparr>attempt = 0, calls = 0, slept = []\<rparr>"

text \<open>
  An attempt is transient when \<open>fetch\<close> rejects or the response is unsuccessful with a
  5xx status; \<open>errorText\<close> is the message of the error such an attempt ends with.
\<close>

definition transient :: "outcome \<Rightarrow> bool" where
  "transient out =
     (case out of Rejected _ \<Rightarrow> True | Responded r \<Rightarrow> \<not> ok r \<and> status r \<ge> 500)"

definition errorText :: "outcome \<Rightarrow> string" where
  "errorText out =
     (case out of
        Rejected e \<Rightarrow> messageOf e
      | Responded r \<Rightarrow> ''HTTP error! status: '' @ show_nat (status r))"

definition saysNoUser :: "outcome \<Rightarrow> bool" where
  "saysNoUser out =
     (case out of Rejected _ \<Rightarrow> False | Responded r \<Rightarrow> \<not> ok r \<and> errorBodySaysNoUser (json r))"

text \<open>A server that answers every request with status 500 and a body saying that the user does not exist.\<close>

definition net_500_no_user :: "nat \<Rightarrow> outcome" where
  "net_500_no_user k =
     Responded \<lparr>ok = False, status = 500,
       json = Parsed \<lparr>json_status = Some ''error'', message = Message ''User does not exist'',
                      totalSolved = 0, easySolved = 0, mediumSolved = 0, hardSolved = 0\<rparr>\<rparr>"

text \<open>A network that is down: every call of \<open>fetch\<close> rejects.\<close>

definition net_down :: "nat \<Rightarrow> outcome" where
  "net_down k = Rejected (Error ''Failed to fetch'')"

text \<open>A server that answers 404 with a body saying that the user does not exist.\<close>

definition net_404_no_user :: "nat \<Rightarrow> outcome" where
  "net_404_no_user k =
     Responded \<lparr>ok = False, status = 404,
       json = Parsed \<lparr>json_status = Some ''error'', message = Message ''user does not exist'',
                      totalSolved = 0, easySolved = 0, mediumSolved = 0, hardSolved = 0\<rparr>\<rparr>"

text \<open>A network whose first call rejects, whose second answers 503, and which then answers.\<close>

definition net_flaky :: "nat \<Rightarrow> outcome" where
  "net_flaky k =
     (if k = 0 then Rejected (Error ''Failed to fetch'')
      else if k = 1 then
        Responded \<lparr>ok = False, status = 503, json = Unparsable (Error ''Unexpected token'')\<rparr>
      else
        Responded \<lparr>ok = True, status = 200,
          json = Parsed \<lparr>json_status = Some ''success'', message = Message ''retrieved'',
                         totalSolved = 10, easySolved = 7, mediumSolved = 2, hardSolved = 1\<rparr>\<rparr>)"

text \<open>
  The shape of every record the fetcher returns for a user and a known job count: it names
  the user, carries the job count passed in, and has zero counts and score when it carries
  an error.
\<close>

definition zeroedOnError :: "string \<Rightarrow> number \<Rightarrow> UserStats \<Rightarrow> bool" where
  "zeroedOnError u j r =
     (username r = u \<and> jobsApplied r = j \<and>
      (error r \<noteq> None \<longrightarrow> easy r = 0 \<and> medium r = 0 \<and> hard r = 0 \<and> total r = 0 \<and> xp r = 0))"

section \<open>Verified properties\<close>

lemma indexOf_notin: "x \<notin> set xs \<Longrightarrow> indexOf xs x = -1"
  by (induction xs) auto

text \<open>
  C10. Advancing a job status moves it one step along Applied, Assessment, Interview,
  Offer; from Offer it wraps to Applied; a value outside the sequence advances to Applied.
\<close>

theorem getNextStatus_cycle:
  "getNextStatus ''Applied'' = ''Assessment'' \<and>
   getNextStatus ''Assessment'' = ''Interview'' \<and>
   getNextStatus ''Interview'' = ''Offer'' \<and>
   getNextStatus ''Offer'' = ''Applied'' \<and>
   (\<forall>i < length STATUS_SEQUENCE.
      getNextStatus (STATUS_SEQUENCE ! i) = STATUS_SEQUENCE ! ((i + 1) mod length STATUS_SEQUENCE)) \<and>
   (\<forall>s. s \<notin> set STATUS_SEQUENCE \<longrightarrow> getNextStatus s = ''Applied'')"
proof -
  have a: "getNextStatus ''Applied'' = ''Assessment''"
    by (simp add: getNextStatus_def STATUS_SEQUENCE_def)
  have b: "getNextStatus ''Assessment'' = ''Interview''"
    by (simp add: getNextStatus_def STATUS_SEQUENCE_def)
  have c: "getNextStatus ''Interview'' = ''Offer''"
    by (simp add: getNextStatus_def STATUS_SEQUENCE_def)
  have d: "getNextStatus ''Offer'' = ''Applied''"
    by (simp add: getNextStatus_def STATUS_SEQUENCE_def)
  have e: "getNextStatus (STATUS_SEQUENCE ! i) = STATUS_SEQUENCE ! ((i + 1) mod length STATUS_SEQUENCE)"
    if "i < length STATUS_SEQUENCE" for i
  proof -
    from that have "i = 0 \<or> i = 1 \<or> i = 2 \<or> i = 3"
      by (auto simp: STATUS_SEQUENCE_def)
    then show ?thesis
      using a b c d by (auto simp: STATUS_SEQUENCE_def)
  qed
  have f: "getNextStatus s = ''Applied''" if "s \<notin> set STATUS_SEQUENCE" for s
    using indexOf_notin [OF that] by (simp add: getNextStatus_def)
  from a b c d e f show ?thesis by blast
qed

theorem getNextStatus_cycle_witness:
  "(2::nat) < length STATUS_SEQUENCE \<and> ''Rejected'' \<notin> set STATUS_SEQUENCE \<and>
   getNextStatus (STATUS_SEQUENCE ! 2) = STATUS_SEQUENCE ! 3 \<and>
   getNextStatus ''Rejected'' = ''Applied''"
proof -
  have h1: "(2::nat) < length STATUS_SEQUENCE" by (simp add: STATUS_SEQUENCE_def)
  have h2: "''Rejected'' \<notin> set STATUS_SEQUENCE" by (simp add: STATUS_SEQUENCE_def)
  from getNextStatus_cycle have
    g1: "\<And>i. i < length STATUS_SEQUENCE \<Longrightarrow>
      getNextStatus (STATUS_SEQUENCE ! i) = STATUS_SEQUENCE ! ((i + 1) mod length STATUS_SEQUENCE)"
    and g2: "\<And>s. s \<notin> set STATUS_SEQUENCE \<Longrightarrow> getNextStatus s = ''Applied''"
    by blast+
  have "getNextStatus (STATUS_SEQUENCE ! 2) = STATUS_SEQUENCE ! 3"
    using g1 [OF h1] by (simp add: STATUS_SEQUENCE_def)
  with g2 [OF h2] h1 h2 show ?thesis by blast
qed

text \<open>
  C2. With a baseline entry, each of easy, medium, hard, total and jobsApplied of the
  progress record is the difference of the current and the baseline value clamped at zero;
  xp is recomputed from these deltas with the weights 0.5, 1, 2 and 4, and does not depend
  on the xp stored in either input; every numeric field of the result is non-negative.
\<close>

theorem computeProgress_baseline_deltas:
  "easy (computeProgress current (Some b)) = max 0 (easy current - easy b) \<and>
   medium (computeProgress current (Some b)) = max 0 (medium current - medium b) \<and>
   hard (computeProgress current (Some b)) = max 0 (hard current - hard b) \<and>
   total (computeProgress current (Some b)) = max 0 (total current - total b) \<and>
   jobsApplied (computeProgress current (Some b)) = max 0 (jobsApplied current - jobsApplied b) \<and>
   xp (computeProgress current (Some b)) =
     0.5 * max 0 (jobsApplied current - jobsApplied b) + 1 * max 0 (easy current - easy b)
     + 2 * max 0 (medium current - medium b) + 4 * max 0 (hard current - hard b) \<and>
   computeProgress (current\<lparr>xp := x\<rparr>) (Some (b\<lparr>xp := y\<rparr>)) = computeProgress current (Some b) \<and>
   0 \<le> easy (computeProgress current (Some b)) \<and>
   0 \<le> medium (computeProgress current (Some b)) \<and>
   0 \<le> hard (computeProgress current (Some b)) \<and>
   0 \<le> total (computeProgress current (Some b)) \<and>
   0 \<le> jobsApplied (computeProgress current (Some b)) \<and>
   0 \<le> xp (computeProgress current (Some b)) \<and>
   0 \<le> rank (computeProgress current (Some b))"
  by (simp add: computeProgress_def or0_def Let_def)

text \<open>
  C3. Without a baseline entry the progress record has easy, medium, hard, total,
  jobsApplied and xp all zero, whatever the current stats are; the user's identity and
  error marker are kept.
\<close>

theorem computeProgress_no_baseline_zero:
  "easy (computeProgress current None) = 0 \<and>
   medium (computeProgress current None) = 0 \<and>
   hard (computeProgress current None) = 0 \<and>
   total (computeProgress current None) = 0 \<and>
   jobsApplied (computeProgress current None) = 0 \<and>
   xp (computeProgress current None) = 0 \<and>
   rank (computeProgress current None) = 0 \<and>
   username (computeProgress current None) = username current \<and>
   name (computeProgress current None) = name current \<and>
   error (computeProgress current None) = error current"
  by (simp add: computeProgress_def)

text \<open>The scenario user gains 2.5 experience points: half a point for the job, two for the easy problems.\<close>

lemma computeProgress_scenario:
  "computeProgress scenario_current (Some scenario_baseline)
     = \<lparr>jobsApplied = 1, easy = 2, medium = 0, hard = 0, total = 2, xp = 2.5,
        username = ''a'', name = None, rank = 0, error = None\<rparr>"
  by (simp add: computeProgress_def scenario_current_def scenario_baseline_def or0_def)

lemma computeProgress_scenario_new_user:
  "xp (computeProgress scenario_current None) = 0 \<and> xp scenario_current = 16"
  by (simp add: computeProgress_def scenario_current_def)


lemma set_insert_by: "set (insert_by cmp x ys) = insert x (set ys)"
  by (induction ys) auto

lemma mset_insert_by: "mset (insert_by cmp x ys) = add_mset x (mset ys)"
  by (induction ys) auto

lemma mset_sort_by: "mset (sort_by cmp xs) = mset xs"
  by (induction xs) (auto simp: sort_by_def mset_insert_by)

lemma length_sort_by: "length (sort_by cmp xs) = length xs"
  using mset_sort_by [of cmp xs] by (metis size_mset)

lemma ranksBefore_cmp: "ranksBefore a b \<longleftrightarrow> byXpThenTotal a b \<le> 0"
  by (auto simp: ranksBefore_def byXpThenTotal_def)

lemma ranksBefore_trans: "ranksBefore a b \<Longrightarrow> ranksBefore b c \<Longrightarrow> ranksBefore a c"
  by (auto simp: ranksBefore_def)

lemma ranksBefore_total: "\<not> ranksBefore a b \<Longrightarrow> ranksBefore b a"
  by (auto simp: ranksBefore_def)

lemma sorted_insert_by:
  "sorted_wrt ranksBefore ys \<Longrightarrow> sorted_wrt ranksBefore (insert_by byXpThenTotal x ys)"
proof (induction ys)
  case Nil
  then show ?case by simp
next
  case (Cons y ys)
  show ?case
  proof (cases "byXpThenTotal x y \<le> 0")
    case True
    then have "ranksBefore x y" by (simp add: ranksBefore_cmp)
    with Cons.prems have "\<forall>z \<in> set (y # ys). ranksBefore x z"
      by (auto intro: ranksBefore_trans)
    with Cons.prems True show ?thesis by simp
  next
    case False
    then have "ranksBefore y x" using ranksBefore_cmp ranksBefore_total by blast
    with Cons False show ?thesis by (auto simp: set_insert_by)
  qed
qed

lemma sorted_sort_by: "sorted_wrt ranksBefore (sort_by byXpThenTotal xs)"
  by (induction xs) (auto simp: sort_by_def sorted_insert_by)

lemma length_mapi: "length (mapi f xs) = length xs"
  by (simp add: mapi_def)

lemma nth_mapi: "i < length xs \<Longrightarrow> mapi f xs ! i = f (xs ! i) i"
  by (simp add: mapi_def nth_enumerate_eq)

lemma ranksBefore_rank_update:
  "ranksBefore (a\<lparr>rank := r\<rparr>) (b\<lparr>rank := s\<rparr>) = ranksBefore a b"
  by (simp add: ranksBefore_def)

lemma sortAndRank_sorted: "sorted_wrt ranksBefore (sortAndRank items)"
  using sorted_sort_by [of items]
  by (simp add: sorted_wrt_iff_nth_less sortAndRank_def length_mapi nth_mapi ranksBefore_rank_update)

lemma sortAndRank_ranks: "map rank (sortAndRank items) = map real [1 ..< Suc (length items)]"
  by (rule nth_equalityI)
     (simp_all add: sortAndRank_def length_mapi nth_mapi length_sort_by del: upt_Suc)

lemma sortAndRank_erase_rank:
  "map (\<lambda>s. s\<lparr>rank := 0\<rparr>) (sortAndRank items) = map (\<lambda>s. s\<lparr>rank := 0\<rparr>) (sort_by byXpThenTotal items)"
  by (rule nth_equalityI)
     (simp_all add: sortAndRank_def length_mapi nth_mapi length_sort_by)

text \<open>
  C5. The list produced by sortAndRank is in descending order of xp, ties broken by
  descending total; the ranks, read in that order, are exactly 1, 2, ..., N (no gap, no
  duplicate, so tied users do not share a rank); and the ranked list holds the same users
  as the input.
\<close>

theorem sortAndRank_ordered_positional:
  "sorted_wrt ranksBefore (sortAndRank items) \<and>
   map rank (sortAndRank items) = map real [1 ..< Suc (length items)] \<and>
   length (sortAndRank items) = length items \<and>
   distinct (map rank (sortAndRank items)) \<and>
   mset (map (\<lambda>s. s\<lparr>rank := 0\<rparr>) (sortAndRank items)) = mset (map (\<lambda>s. s\<lparr>rank := 0\<rparr>) items)"
proof -
  have d: "distinct (map real [1 ..< Suc (length items)])"
    by (simp add: distinct_map inj_on_def del: upt_Suc)
  have l: "length (sortAndRank items) = length items"
    by (simp add: sortAndRank_def length_mapi length_sort_by)
  have m: "mset (map (\<lambda>s. s\<lparr>rank := 0\<rparr>) (sortAndRank items)) = mset (map (\<lambda>s. s\<lparr>rank := 0\<rparr>) items)"
    by (simp add: sortAndRank_erase_rank mset_sort_by)
  from d l m sortAndRank_sorted [of items] sortAndRank_ranks [of items] show ?thesis
    by simp
qed

text \<open>Two users tie on xp; the one with the larger total is ranked first.\<close>

theorem sortAndRank_ordered_positional_witness:
  "map username (sortAndRank
     [\<lparr>jobsApplied = 0, easy = 3, medium = 0, hard = 0, total = 3, xp = 3,
        username = ''ann'', name = None, rank = 0, error = None\<rparr>,
      \<lparr>jobsApplied = 2, easy = 0, medium = 1, hard = 0, total = 5, xp = 3,
        username = ''bob'', name = None, rank = 0, error = None\<rparr>,
      \<lparr>jobsApplied = 0, easy = 0, medium = 0, hard = 1, total = 1, xp = 4,
        username = ''cy'', name = None, rank = 0, error = None\<rparr>]) = [''cy'', ''bob'', ''ann''] \<and>
   map rank (sortAndRank
     [\<lparr>jobsApplied = 0, easy = 3, medium = 0, hard = 0, total = 3, xp = 3,
        username = ''ann'', name = None, rank = 0, error = None\<rparr>,
      \<lparr>jobsApplied = 2, easy = 0, medium = 1, hard = 0, total = 5, xp = 3,
        username = ''bob'', name = None, rank = 0, error = None\<rparr>,
      \<lparr>jobsApplied = 0, easy = 0, medium = 0, hard = 1, total = 1, xp = 4,
        username = ''cy'', name = None, rank = 0, error = None\<rparr>]) = [1, 2, 3]"
  using sortAndRank_ordered_positional [of
     "[\<lparr>jobsApplied = 0, easy = 3, medium = 0, hard = 0, total = 3, xp = 3,
        username = ''ann'', name = None, rank = 0, error = None\<rparr>,
      \<lparr>jobsApplied = 2, easy = 0, medium = 1, hard = 0, total = 5, xp = 3,
        username = ''bob'', name = None, rank = 0, error = None\<rparr>,
      \<lparr>jobsApplied = 0, easy = 0, medium = 0, hard = 1, total = 1, xp = 4,
        username = ''cy'', name = None, rank = 0, error = None\<rparr>]"]
  by (simp add: sortAndRank_def sort_by_def byXpThenTotal_def mapi_def enumerate_eq_zip upt_rec)

lemma mapi_erase_rank:
  "map (\<lambda>s. s\<lparr>rank := 0\<rparr>) (mapi (\<lambda>s i. s\<lparr>rank := real i + 1\<rparr>) xs) = map (\<lambda>s. s\<lparr>rank := 0\<rparr>) xs"
  by (rule nth_equalityI) (simp_all add: length_mapi nth_mapi)

text \<open>
  C6, as stated, fails: for the example user the total reported by computePrevStats is 3
  (the sum of the clamped difficulty deltas 0, 3 and 0), not the clamped difference 1 of
  the two totals 8 and 7.
\<close>

theorem computePrevStats_total_counterexample:
  "total (computePrevStats prev_end_example (Some prev_start_example) ! 0)
     \<noteq> max 0 (total (users prev_end_example ! 0) - total (users prev_start_example ! 0))"
  by (simp add: computePrevStats_def prev_end_example_def prev_start_example_def
      startUserOf_def prevDelta_def or0_opt_def or0_def sort_by_def mapi_def)

text \<open>
  C6, amended. For each user of the end snapshot, the jobsApplied, easy, medium and hard
  deltas are the end value minus the start value clamped at zero, where a user absent from
  the start snapshot (or an absent start snapshot) counts as an all-zero baseline; total is
  the sum of the easy, medium and hard deltas; xp is recomputed from the deltas; and the
  list returned holds exactly these records, ranked.
\<close>

theorem computePrevStats_deltas:
  "jobsApplied (prevDelta e s) = max 0 (jobsApplied e - (case s of None \<Rightarrow> 0 | Some u \<Rightarrow> jobsApplied u)) \<and>
   easy (prevDelta e s) = max 0 (easy e - (case s of None \<Rightarrow> 0 | Some u \<Rightarrow> easy u)) \<and>
   medium (prevDelta e s) = max 0 (medium e - (case s of None \<Rightarrow> 0 | Some u \<Rightarrow> medium u)) \<and>
   hard (prevDelta e s) = max 0 (hard e - (case s of None \<Rightarrow> 0 | Some u \<Rightarrow> hard u)) \<and>
   total (prevDelta e s) = easy (prevDelta e s) + medium (prevDelta e s) + hard (prevDelta e s) \<and>
   xp (prevDelta e s) = 0.5 * jobsApplied (prevDelta e s) + 1 * easy (prevDelta e s)
      + 2 * medium (prevDelta e s) + 4 * hard (prevDelta e s) \<and>
   startUserOf None e = None \<and>
   startUserOf (Some start) e = find (\<lambda>u. username u = username e) (users start) \<and>
   mset (map (\<lambda>s. s\<lparr>rank := 0\<rparr>) (computePrevStats endSnap startSnap))
     = mset (map (\<lambda>e. prevDelta e (startUserOf startSnap e)) (users endSnap)) \<and>
   map rank (computePrevStats endSnap startSnap) = map real [1 ..< Suc (length (users endSnap))]"
proof -
  have f: "jobsApplied (prevDelta e s) = max 0 (jobsApplied e - (case s of None \<Rightarrow> 0 | Some u \<Rightarrow> jobsApplied u)) \<and>
   easy (prevDelta e s) = max 0 (easy e - (case s of None \<Rightarrow> 0 | Some u \<Rightarrow> easy u)) \<and>
   medium (prevDelta e s) = max 0 (medium e - (case s of None \<Rightarrow> 0 | Some u \<Rightarrow> medium u)) \<and>
   hard (prevDelta e s) = max 0 (hard e - (case s of None \<Rightarrow> 0 | Some u \<Rightarrow> hard u))"
    by (cases s) (simp_all add: prevDelta_def or0_opt_def or0_def Let_def)
  have t: "total (prevDelta e s) = easy (prevDelta e s) + medium (prevDelta e s) + hard (prevDelta e s)"
    by (simp add: prevDelta_def Let_def)
  have x: "xp (prevDelta e s) = 0.5 * jobsApplied (prevDelta e s) + 1 * easy (prevDelta e s)
      + 2 * medium (prevDelta e s) + 4 * hard (prevDelta e s)"
    by (simp add: prevDelta_def Let_def)
  have u: "startUserOf None e = None"
    "startUserOf (Some start) e = find (\<lambda>u. username u = username e) (users start)"
    by (simp_all add: startUserOf_def)
  have r0: "(\<lambda>s. s\<lparr>rank := 0\<rparr>) \<circ> (\<lambda>e. prevDelta e (startUserOf startSnap e))
      = (\<lambda>e. prevDelta e (startUserOf startSnap e))"
    by (rule ext) (simp add: prevDelta_def Let_def)
  have m: "mset (map (\<lambda>s. s\<lparr>rank := 0\<rparr>) (computePrevStats endSnap startSnap))
     = mset (map (\<lambda>e. prevDelta e (startUserOf startSnap e)) (users endSnap))"
  proof -
    let ?stats = "map (\<lambda>e. prevDelta e (startUserOf startSnap e)) (users endSnap)"
    have "mset (map (\<lambda>s. s\<lparr>rank := 0\<rparr>) (computePrevStats endSnap startSnap))
        = mset (map (\<lambda>s. s\<lparr>rank := 0\<rparr>) (sort_by (\<lambda>a b. xp b - xp a) ?stats))"
      by (simp add: computePrevStats_def Let_def mapi_erase_rank)
    also have "\<dots> = mset (map (\<lambda>s. s\<lparr>rank := 0\<rparr>) ?stats)"
      by (simp only: mset_map mset_sort_by)
    also have "map (\<lambda>s. s\<lparr>rank := 0\<rparr>) ?stats = ?stats"
      by (simp only: map_map r0)
    finally show ?thesis .
  qed
  have k: "map rank (computePrevStats endSnap startSnap) = map real [1 ..< Suc (length (users endSnap))]"
    by (rule nth_equalityI)
       (simp_all add: computePrevStats_def length_mapi nth_mapi length_sort_by del: upt_Suc)
  from f t x u m k show ?thesis by simp
qed


















lemma patchDoc_map:
  "patchDoc keys updateOk uname stats nm e c = map (patchOne keys updateOk uname stats nm e) c"
proof (cases "isCurrent keys (snd e) \<and> \<not> list_ex (\<lambda>u. username u = uname) (users (snd e))
    \<and> updateOk (fst e)")
  case True
  then show ?thesis
    by (simp add: patchDoc_def patchOne_def updateDoc_users_def Let_def)
next
  case False
  then have "map (patchOne keys updateOk uname stats nm e) c = c"
    by (intro map_idI) (auto simp: patchOne_def)
  with False show ?thesis
    by (auto simp: patchDoc_def Let_def)
qed

lemma fst_patchOne: "fst (patchOne keys updateOk uname stats nm e d) = fst d"
  by (simp add: patchOne_def)

lemma foldl_patchDoc_map:
  "foldl (\<lambda>c e. patchDoc keys updateOk uname stats nm e c) c docs
     = map (\<lambda>d. foldl (\<lambda>d e. patchOne keys updateOk uname stats nm e d) d docs) c"
  by (induction docs arbitrary: c) (simp_all add: patchDoc_map comp_def)

lemma foldl_patchOne_other:
  "\<forall>e \<in> set docs. fst e \<noteq> fst d \<Longrightarrow>
     foldl (\<lambda>d e. patchOne keys updateOk uname stats nm e d) d docs = d"
  by (induction docs) (auto simp: patchOne_def)

lemma foldl_patchOne_self:
  assumes "distinct (map fst docs)" "d \<in> set docs"
  shows "foldl (\<lambda>d e. patchOne keys updateOk uname stats nm e d) d docs
     = patchOne keys updateOk uname stats nm d d"
proof -
  from assms(2) obtain xs ys where docs: "docs = xs @ d # ys"
    by (auto simp: in_set_conv_decomp)
  with assms(1) have "distinct (map fst xs @ fst d # map fst ys)"
    by simp
  then have "fst d \<notin> set (map fst xs)" and "fst d \<notin> set (map fst ys)"
    by auto
  then have x: "\<forall>e \<in> set xs. fst e \<noteq> fst d" and y: "\<forall>e \<in> set ys. fst e \<noteq> fst d"
    by (metis image_eqI set_map)+
  have "foldl (\<lambda>d e. patchOne keys updateOk uname stats nm e d) d docs
      = foldl (\<lambda>d e. patchOne keys updateOk uname stats nm e d)
          (patchOne keys updateOk uname stats nm d d) ys"
    by (simp add: docs foldl_patchOne_other [OF x])
  also have "\<dots> = patchOne keys updateOk uname stats nm d d"
    using y by (intro foldl_patchOne_other) (simp add: fst_patchOne)
  finally show ?thesis .
qed

lemma addUserToCurrentSnapshots_map:
  assumes "distinct (map fst coll)"
  shows "addUserToCurrentSnapshots keys readOk updateOk uname stats nm coll
     = (if readOk then map (\<lambda>d. patchOne keys updateOk uname stats nm d d) coll else coll)"
  using assms
  by (simp add: addUserToCurrentSnapshots_def foldl_patchDoc_map foldl_patchOne_self cong: map_cong)

text \<open>
  C7. In a collection with distinct document ids, take a snapshot document of the current
  period. If its users already hold an entry with the new user's username, the patch leaves
  the document as it is. Otherwise, when the database calls resolve, the document's users
  become the old users followed by one new entry, which carries the username, the display
  name and the six numbers of the stats passed in. No document is added or removed, and a
  document that is not of the current period stays as it is.
\<close>

theorem addUserToCurrentSnapshots_append_only:
  assumes "distinct (map fst coll)" and "n < length coll" and "isCurrent keys (snd (coll ! n))"
  shows
    "length (addUserToCurrentSnapshots keys readOk updateOk uname stats nm coll) = length coll \<and>
     (list_ex (\<lambda>u. username u = uname) (users (snd (coll ! n))) \<longrightarrow>
        addUserToCurrentSnapshots keys readOk updateOk uname stats nm coll ! n = coll ! n) \<and>
     (\<not> list_ex (\<lambda>u. username u = uname) (users (snd (coll ! n))) \<and> readOk \<and> updateOk (fst (coll ! n)) \<longrightarrow>
        addUserToCurrentSnapshots keys readOk updateOk uname stats nm coll ! n
          = (fst (coll ! n),
             (snd (coll ! n))\<lparr>users := users (snd (coll ! n)) @ [newUserSnapshot uname stats nm]\<rparr>)) \<and>
     newUserSnapshot uname stats nm
       = \<lparr>jobsApplied = jobsApplied stats, easy = easy stats, medium = medium stats,
          hard = hard stats, total = total stats, xp = xp stats,
          username = uname, name = Some nm\<rparr> \<and>
     (\<forall>m < length coll. \<not> isCurrent keys (snd (coll ! m)) \<longrightarrow>
        addUserToCurrentSnapshots keys readOk updateOk uname stats nm coll ! m = coll ! m)"
  using assms
  by (simp add: addUserToCurrentSnapshots_map patchOne_def newUserSnapshot_def)

text \<open>
  On the example collection: adding bob appends his entry to the snapshot of week 45, which
  holds ann only; adding ann again changes nothing.
\<close>

theorem addUserToCurrentSnapshots_append_only_witness:
  "addUserToCurrentSnapshots clock_example True (\<lambda>i. True) ''bob'' bob_stats ''Bob'' coll_example ! 1
     = (fst weekly_doc_example,
        (snd weekly_doc_example)\<lparr>users := users (snd weekly_doc_example)
            @ [newUserSnapshot ''bob'' bob_stats ''Bob'']\<rparr>) \<and>
   addUserToCurrentSnapshots clock_example True (\<lambda>i. True) ''ann'' ann_stats ''Ann'' coll_example ! 1
     = weekly_doc_example \<and>
   addUserToCurrentSnapshots clock_example True (\<lambda>i. True) ''bob'' bob_stats ''Bob'' coll_example ! 0
     = old_doc_example"
proof -
  have d: "distinct (map fst coll_example)"
    by (simp add: coll_example_def old_doc_example_def weekly_doc_example_def)
  have n: "1 < length coll_example" and n0: "0 < length coll_example"
    by (simp_all add: coll_example_def)
  have e: "coll_example ! 1 = weekly_doc_example" "coll_example ! 0 = old_doc_example"
    by (simp_all add: coll_example_def)
  have cur: "isCurrent clock_example (snd (coll_example ! 1))"
    unfolding e by (simp add: isCurrent_def clock_example_def weekly_doc_example_def)
  have old: "\<not> isCurrent clock_example (snd (coll_example ! 0))"
    unfolding e by (simp add: isCurrent_def clock_example_def old_doc_example_def)
  have nobob: "\<not> list_ex (\<lambda>u. username u = ''bob'') (users (snd (coll_example ! 1)))"
    unfolding e by (simp add: weekly_doc_example_def)
  have ann: "list_ex (\<lambda>u. username u = ''ann'') (users (snd (coll_example ! 1)))"
    unfolding e by (simp add: weekly_doc_example_def)
  from addUserToCurrentSnapshots_append_only [OF d n cur, of True "\<lambda>i. True" "''bob''" bob_stats "''Bob''"]
    nobob old n0
  have b1: "addUserToCurrentSnapshots clock_example True (\<lambda>i. True) ''bob'' bob_stats ''Bob'' coll_example ! 1
     = (fst (coll_example ! 1),
        (snd (coll_example ! 1))\<lparr>users := users (snd (coll_example ! 1))
            @ [newUserSnapshot ''bob'' bob_stats ''Bob'']\<rparr>)"
    and b0: "addUserToCurrentSnapshots clock_example True (\<lambda>i. True) ''bob'' bob_stats ''Bob'' coll_example ! 0
     = coll_example ! 0"
    by auto
  from addUserToCurrentSnapshots_append_only [OF d n cur, of True "\<lambda>i. True" "''ann''" ann_stats "''Ann''"]
    ann
  have a1: "addUserToCurrentSnapshots clock_example True (\<lambda>i. True) ''ann'' ann_stats ''Ann'' coll_example ! 1
     = coll_example ! 1"
    by blast
  from b1 b0 a1 show ?thesis by (simp only: e) 
qed

lemma fetchLoop_transient:
  assumes "attempt s < maxRetries" "transient (net (calls s))"
  shows "fetchLoop net u j s = fetchLoop net u j (retry (s\<lparr>calls := calls s + 1\<rparr>))"
proof (cases "net (calls s)")
  case (Rejected e)
  with assms(1) show ?thesis
    by (subst fetchLoop.simps) (simp add: tryBlock_def Let_def)
next
  case (Responded r)
  with assms show ?thesis
    by (subst fetchLoop.simps) (simp add: tryBlock_def Let_def transient_def)
qed

lemma fetchLoop_prefix:
  assumes "k \<le> maxRetries" "\<forall>i<k. transient (net i)"
  shows "fetchUserStats net u j
     = fetchLoop net u j \<lparr>attempt = k, calls = k, slept = map backoff [1 ..< Suc k]\<rparr>"
  using assms
proof (induction k)
  case 0
  then show ?case by (simp add: fetchUserStats_def)
next
  case (Suc k)
  then have "fetchUserStats net u j
     = fetchLoop net u j \<lparr>attempt = k, calls = k, slept = map backoff [1 ..< Suc k]\<rparr>"
    by simp
  also have "\<dots> = fetchLoop net u j (retry (\<lparr>attempt = k, calls = k, slept = map backoff [1 ..< Suc k]\<rparr>\<lparr>calls := k + 1\<rparr>))"
    using Suc.prems by (subst fetchLoop_transient) simp_all
  finally show ?case by (simp add: retry_def Let_def)
qed

lemma fetchLoop_no_user:
  assumes "attempt s \<le> maxRetries" "net (calls s) = Responded r" "\<not> ok r"
    "status r < 500 \<or> attempt s = maxRetries" "errorBodySaysNoUser (json r)"
  shows "fetchLoop net u j s = (failed u j ''this is not a leetcode user'', s\<lparr>calls := calls s + 1\<rparr>)"
  using assms by (subst fetchLoop.simps) (auto simp: tryBlock_def Let_def)

lemma fetchLoop_exhausted:
  assumes "attempt s = maxRetries" "transient (net (calls s))" "\<not> saysNoUser (net (calls s))"
  shows "fetchLoop net u j s = (failed u j (errorText (net (calls s))), s\<lparr>calls := calls s + 1\<rparr>)"
proof (cases "net (calls s)")
  case (Rejected e)
  with assms(1) show ?thesis
    by (subst fetchLoop.simps) (simp add: tryBlock_def Let_def errorText_def)
next
  case (Responded r)
  with assms show ?thesis
    by (subst fetchLoop.simps)
       (simp add: tryBlock_def Let_def errorText_def transient_def saysNoUser_def messageOf_def)
qed

lemma tryBlock_Return: "tryBlock out u j a = Return r \<Longrightarrow> zeroedOnError u j r"
  by (auto simp: tryBlock_def zeroedOnError_def failed_def succeeded_def Let_def
      split: outcome.splits if_splits body.splits sum.splits bool.splits)

lemma fetchLoop_zeroedOnError: "zeroedOnError u j (fst (fetchLoop net u j s))"
proof (induction net u j s rule: fetchLoop.induct)
  case (1 net uname jobs s)
  show ?case
  proof (cases "attempt s \<le> maxRetries")
    case False
    then show ?thesis
      by (subst fetchLoop.simps) (simp add: zeroedOnError_def failed_def)
  next
    case True
    show ?thesis
    proof (cases "tryBlock (net (calls s)) uname jobs (attempt s)")
      case (Return r)
      with True tryBlock_Return [OF Return] show ?thesis
        by (subst fetchLoop.simps) (simp add: Let_def)
    next
      case Continue
      with True "1.IH"(1) [OF True refl Continue] show ?thesis
        by (subst fetchLoop.simps) (simp add: Let_def)
    next
      case (Throw e)
      show ?thesis
      proof (cases "attempt s \<ge> maxRetries")
        case a: True
        with True Throw show ?thesis
          by (subst fetchLoop.simps) (simp add: Let_def zeroedOnError_def failed_def)
      next
        case a: False
        with True Throw "1.IH"(2) [OF True refl Throw] show ?thesis
          by (subst fetchLoop.simps) (simp add: Let_def)
      qed
    qed
  qed
qed

lemma fetchLoop_calls:
  "attempt s \<le> Suc maxRetries \<Longrightarrow>
    calls (snd (fetchLoop net u j s)) \<le> calls s + (Suc maxRetries - attempt s)"
proof (induction net u j s rule: fetchLoop.induct)
  case (1 net uname jobs s)
  show ?case
  proof (cases "attempt s \<le> maxRetries")
    case False
    then show ?thesis
      by (subst fetchLoop.simps) simp
  next
    case True
    show ?thesis
    proof (cases "tryBlock (net (calls s)) uname jobs (attempt s)")
      case (Return r)
      with True show ?thesis
        by (subst fetchLoop.simps) (simp add: Let_def)
    next
      case Continue
      with True "1.IH"(1) [OF True refl Continue] show ?thesis
        by (subst fetchLoop.simps) (simp add: Let_def retry_def)
    next
      case (Throw e)
      show ?thesis
      proof (cases "attempt s \<ge> maxRetries")
        case a: True
        with True Throw show ?thesis
          by (subst fetchLoop.simps) (simp add: Let_def)
      next
        case a: False
        with True Throw "1.IH"(2) [OF True refl Throw] show ?thesis
          by (subst fetchLoop.simps) (simp add: Let_def retry_def)
      qed
    qed
  qed
qed

lemma fetchLoop_success:
  assumes "attempt s \<le> maxRetries" "net (calls s) = Responded r" "ok r" "json r = Parsed data"
    "json_status data = Some ''success''"
  shows "fetchLoop net u j s = (succeeded u j data, s\<lparr>calls := calls s + 1\<rparr>)"
  using assms by (subst fetchLoop.simps) (simp add: tryBlock_def Let_def dataSaysNoUser_def)

lemma backoff_upto_3: "map backoff [Suc 0 ..< 4] = [1000, 2000, 4000]"
  by (simp add: backoff_def upt_rec)

text \<open>
  C8, as stated, fails: against a server that answers every request with status 500 and an
  error body saying that the user does not exist, the fetcher retries three times with
  delays of 1, 2 and 4 seconds, and then returns the not-found record, not a transient
  failure carrying the message of the last error.
\<close>

theorem fetchUserStats_exhausted_counterexample:
  "transient (net_500_no_user 0) \<and> transient (net_500_no_user 1) \<and>
   transient (net_500_no_user 2) \<and> transient (net_500_no_user 3) \<and>
   fetchUserStats net_500_no_user ''ghost'' 2
     = (failed ''ghost'' 2 ''this is not a leetcode user'',
        \<lparr>attempt = 3, calls = 4, slept = [1000, 2000, 4000]\<rparr>) \<and>
   error (fst (fetchUserStats net_500_no_user ''ghost'' 2)) \<noteq> Some (errorText (net_500_no_user 3))"
proof -
  have t: "transient (net_500_no_user i)" for i
    by (simp add: transient_def net_500_no_user_def)
  have "fetchUserStats net_500_no_user ''ghost'' 2
      = fetchLoop net_500_no_user ''ghost'' 2 \<lparr>attempt = 3, calls = 3, slept = map backoff [1 ..< Suc 3]\<rparr>"
    using t by (intro fetchLoop_prefix) (simp_all add: maxRetries_def)
  also have "\<dots> = (failed ''ghost'' 2 ''this is not a leetcode user'',
        \<lparr>attempt = 3, calls = 3, slept = map backoff [1 ..< Suc 3]\<rparr>\<lparr>calls := 3 + 1\<rparr>)"
    by (subst fetchLoop_no_user [where r = "\<lparr>ok = False, status = 500,
       json = Parsed \<lparr>json_status = Some ''error'', message = Message ''User does not exist'',
                      totalSolved = 0, easySolved = 0, mediumSolved = 0, hardSolved = 0\<rparr>\<rparr>"])
       (simp_all add: maxRetries_def net_500_no_user_def errorBodySaysNoUser_def
          toLowerCase_def toLowerChar_def)
  finally have r: "fetchUserStats net_500_no_user ''ghost'' 2
     = (failed ''ghost'' 2 ''this is not a leetcode user'',
        \<lparr>attempt = 3, calls = 4, slept = [1000, 2000, 4000]\<rparr>)"
    by (simp add: backoff_upto_3)
  have "error (fst (fetchUserStats net_500_no_user ''ghost'' 2)) \<noteq> Some (errorText (net_500_no_user 3))"
    by (simp add: r failed_def errorText_def net_500_no_user_def)
  with t r show ?thesis by blast
qed

text \<open>
  C8, amended. Call an attempt transient when fetch rejects or the response is
  unsuccessful with a 5xx status. After k transient attempts (k at most 3) the fetcher has
  slept 1000, 2000, ... milliseconds, doubling each time, and a then successful response
  is returned as the result. After four transient attempts it returns the failure record
  carrying the message of the last error, unless the last response has an error body saying
  that the user does not exist. An unsuccessful response whose error body says that the user
  does not exist, and which is not a 5xx response or is the response to the last attempt,
  ends the call at once with the not-found record: no further request and no further delay.
\<close>

theorem fetchUserStats_retry_backoff:
  "(k \<le> 3 \<and> (\<forall>i<k. transient (net i)) \<and> net k = Responded r \<and> ok r \<and> json r = Parsed data \<and>
    json_status data = Some ''success'' \<longrightarrow>
      fetchUserStats net u j
        = (succeeded u j data,
           \<lparr>attempt = k, calls = Suc k, slept = map (\<lambda>a. 1000 * 2 ^ (a - 1)) [1 ..< Suc k]\<rparr>)) \<and>
   ((\<forall>i<4. transient (net i)) \<and> \<not> saysNoUser (net 3) \<longrightarrow>
      fetchUserStats net u j
        = (failed u j (errorText (net 3)), \<lparr>attempt = 3, calls = 4, slept = [1000, 2000, 4000]\<rparr>)) \<and>
   (k \<le> 3 \<and> (\<forall>i<k. transient (net i)) \<and> net k = Responded r \<and> \<not> ok r \<and>
    (status r < 500 \<or> k = 3) \<and> errorBodySaysNoUser (json r) \<longrightarrow>
      fetchUserStats net u j
        = (failed u j ''this is not a leetcode user'',
           \<lparr>attempt = k, calls = Suc k, slept = map (\<lambda>a. 1000 * 2 ^ (a - 1)) [1 ..< Suc k]\<rparr>))"
proof -
  have b: "(\<lambda>a. 1000 * 2 ^ (a - 1)) = backoff"
    by (rule ext) (simp add: backoff_def)
  have p: "fetchUserStats net u j
      = fetchLoop net u j \<lparr>attempt = k, calls = k, slept = map backoff [1 ..< Suc k]\<rparr>"
    if "k \<le> 3" "\<forall>i<k. transient (net i)" for k
    using that by (intro fetchLoop_prefix) (simp_all add: maxRetries_def)
  have one: "fetchUserStats net u j
        = (succeeded u j data, \<lparr>attempt = k, calls = Suc k, slept = map backoff [1 ..< Suc k]\<rparr>)"
    if "k \<le> 3" "\<forall>i<k. transient (net i)" "net k = Responded r" "ok r" "json r = Parsed data"
      "json_status data = Some ''success''"
    using that p [OF that(1,2)]
      fetchLoop_success [of "\<lparr>attempt = k, calls = k, slept = map backoff [1 ..< Suc k]\<rparr>" net r data u j]
    by (simp add: maxRetries_def)
  have two: "fetchUserStats net u j
        = (failed u j (errorText (net 3)), \<lparr>attempt = 3, calls = 4, slept = [1000, 2000, 4000]\<rparr>)"
    if "\<forall>i<4. transient (net i)" "\<not> saysNoUser (net 3)"
  proof -
    from that(1) have "\<forall>i<3. transient (net i)" and "transient (net 3)" by simp_all
    then show ?thesis
      using that(2) p [of 3]
        fetchLoop_exhausted [of "\<lparr>attempt = 3, calls = 3, slept = map backoff [1 ..< Suc 3]\<rparr>" net u j]
      by (simp add: maxRetries_def backoff_upto_3)
  qed
  have three: "fetchUserStats net u j
        = (failed u j ''this is not a leetcode user'',
           \<lparr>attempt = k, calls = Suc k, slept = map backoff [1 ..< Suc k]\<rparr>)"
    if "k \<le> 3" "\<forall>i<k. transient (net i)" "net k = Responded r" "\<not> ok r"
      "status r < 500 \<or> k = 3" "errorBodySaysNoUser (json r)"
    using that p [OF that(1,2)]
      fetchLoop_no_user [of "\<lparr>attempt = k, calls = k, slept = map backoff [1 ..< Suc k]\<rparr>" net r u j]
    by (simp add: maxRetries_def)
  from one two three show ?thesis
    unfolding b by blast
qed

text \<open>
  A first request that rejects and a second answered with 503 are retried after 1 and 2
  seconds and the third response is returned; a network that is down gives, after four
  requests, the failure record with the message of the last rejection; a 404 response with an
  error body saying that the user does not exist ends the call after one request.
\<close>

theorem fetchUserStats_retry_backoff_witness:
  "fetchUserStats net_flaky ''ann'' 2
     = (succeeded ''ann'' 2
          \<lparr>json_status = Some ''success'', message = Message ''retrieved'',
           totalSolved = 10, easySolved = 7, mediumSolved = 2, hardSolved = 1\<rparr>,
        \<lparr>attempt = 2, calls = 3, slept = [1000, 2000]\<rparr>) \<and>
   fetchUserStats net_down ''ghost'' 2
     = (failed ''ghost'' 2 ''Failed to fetch'', \<lparr>attempt = 3, calls = 4, slept = [1000, 2000, 4000]\<rparr>) \<and>
   fetchUserStats net_404_no_user ''ghost'' 2
     = (failed ''ghost'' 2 ''this is not a leetcode user'', \<lparr>attempt = 0, calls = 1, slept = []\<rparr>)"
proof -
  have f: "2 \<le> (3::nat) \<and> (\<forall>i<2. transient (net_flaky i)) \<and>
      net_flaky 2 = Responded \<lparr>ok = True, status = 200,
          json = Parsed \<lparr>json_status = Some ''success'', message = Message ''retrieved'',
                         totalSolved = 10, easySolved = 7, mediumSolved = 2, hardSolved = 1\<rparr>\<rparr>"
    by (simp add: net_flaky_def transient_def less_Suc_eq numeral_2_eq_2)
  have a: "fetchUserStats net_flaky ''ann'' 2
     = (succeeded ''ann'' 2
          \<lparr>json_status = Some ''success'', message = Message ''retrieved'',
           totalSolved = 10, easySolved = 7, mediumSolved = 2, hardSolved = 1\<rparr>,
        \<lparr>attempt = 2, calls = 3, slept = [1000, 2000]\<rparr>)"
    using f fetchUserStats_retry_backoff [where k = 2 and net = net_flaky and u = "''ann''" and j = 2
        and r = "\<lparr>ok = True, status = 200,
          json = Parsed \<lparr>json_status = Some ''success'', message = Message ''retrieved'',
                         totalSolved = 10, easySolved = 7, mediumSolved = 2, hardSolved = 1\<rparr>\<rparr>"
        and data = "\<lparr>json_status = Some ''success'', message = Message ''retrieved'',
                         totalSolved = 10, easySolved = 7, mediumSolved = 2, hardSolved = 1\<rparr>"]
    by (simp add: upt_rec)
  have d: "(\<forall>i<4. transient (net_down i)) \<and> \<not> saysNoUser (net_down 3)"
    by (simp add: net_down_def transient_def saysNoUser_def)
  have b: "fetchUserStats net_down ''ghost'' 2
     = (failed ''ghost'' 2 ''Failed to fetch'', \<lparr>attempt = 3, calls = 4, slept = [1000, 2000, 4000]\<rparr>)"
    using d fetchUserStats_retry_backoff [where net = net_down and u = "''ghost''" and j = 2]
    by (simp add: errorText_def net_down_def messageOf_def)
  have n: "net_404_no_user 0 = Responded \<lparr>ok = False, status = 404,
       json = Parsed \<lparr>json_status = Some ''error'', message = Message ''user does not exist'',
                      totalSolved = 0, easySolved = 0, mediumSolved = 0, hardSolved = 0\<rparr>\<rparr> \<and>
      errorBodySaysNoUser (Parsed \<lparr>json_status = Some ''error'', message = Message ''user does not exist'',
                      totalSolved = 0, easySolved = 0, mediumSolved = 0, hardSolved = 0\<rparr>)"
    by (simp add: net_404_no_user_def errorBodySaysNoUser_def toLowerCase_def toLowerChar_def)
  have c: "fetchUserStats net_404_no_user ''ghost'' 2
     = (failed ''ghost'' 2 ''this is not a leetcode user'', \<lparr>attempt = 0, calls = 1, slept = []\<rparr>)"
    using n fetchUserStats_retry_backoff [where k = 0 and net = net_404_no_user and u = "''ghost''"
        and j = 2 and r = "\<lparr>ok = False, status = 404,
       json = Parsed \<lparr>json_status = Some ''error'', message = Message ''user does not exist'',
                      totalSolved = 0, easySolved = 0, mediumSolved = 0, hardSolved = 0\<rparr>\<rparr>"]
    by simp
  from a b c show ?thesis by blast
qed

lemma fetchUserStats_net_down:
  "fetchUserStats net_down ''ghost'' 2
     = (failed ''ghost'' 2 ''Failed to fetch'', \<lparr>attempt = 3, calls = 4, slept = [1000, 2000, 4000]\<rparr>)"
proof -
  have t: "transient (net_down i)" for i
    by (simp add: transient_def net_down_def)
  have "fetchUserStats net_down ''ghost'' 2
      = fetchLoop net_down ''ghost'' 2 \<lparr>attempt = 3, calls = 3, slept = map backoff [1 ..< Suc 3]\<rparr>"
    using t by (intro fetchLoop_prefix) (simp_all add: maxRetries_def)
  also have "\<dots> = (failed ''ghost'' 2 (errorText (net_down 3)),
      \<lparr>attempt = 3, calls = 3, slept = map backoff [1 ..< Suc 3]\<rparr>\<lparr>calls := 3 + 1\<rparr>)"
    using t by (subst fetchLoop_exhausted) (simp_all add: maxRetries_def saysNoUser_def net_down_def)
  finally show ?thesis
    by (simp add: backoff_upto_3 errorText_def net_down_def messageOf_def)
qed

text \<open>
  C9. For every behaviour of the network, every username and every known job count,
  fetchUserStats returns a stats record (every error thrown inside the loop is caught, and
  the loop ends after at most four requests). The record names the user and carries the job
  count passed in; when its error is not null, its easy, medium, hard, total and xp are all
  zero, so a failed fetch contributes no experience points even if jobs are recorded.
\<close>

theorem fetchUserStats_returns_zeroed_on_error:
  "\<exists>r s. fetchUserStats net u j = (r, s) \<and>
     username r = u \<and> jobsApplied r = j \<and>
     (error r \<noteq> None \<longrightarrow> easy r = 0 \<and> medium r = 0 \<and> hard r = 0 \<and> total r = 0 \<and> xp r = 0) \<and>
     calls s \<le> 4"
proof -
  obtain r s where rs: "fetchUserStats net u j = (r, s)"
    by (cases "fetchUserStats net u j")
  from fetchLoop_zeroedOnError [of u j net "\<lparr>attempt = 0, calls = 0, slept = []\<rparr>"] rs
  have z: "zeroedOnError u j r"
    by (simp add: fetchUserStats_def)
  from fetchLoop_calls [of "\<lparr>attempt = 0, calls = 0, slept = []\<rparr>" net u j] rs
  have "calls s \<le> 4"
    by (simp add: fetchUserStats_def maxRetries_def)
  with rs z show ?thesis
    by (simp add: zeroedOnError_def)
qed

text \<open>With the network down, a user with two recorded jobs gets a record with an error, the two jobs and no xp.\<close>

theorem fetchUserStats_returns_zeroed_on_error_witness:
  "error (fst (fetchUserStats net_down ''ghost'' 2)) \<noteq> None \<and>
   xp (fst (fetchUserStats net_down ''ghost'' 2)) = 0 \<and>
   jobsApplied (fst (fetchUserStats net_down ''ghost'' 2)) = 2"
proof -
  have e: "error (fst (fetchUserStats net_down ''ghost'' 2)) \<noteq> None"
    by (simp add: fetchUserStats_net_down failed_def)
  from fetchUserStats_returns_zeroed_on_error [of net_down "''ghost''" 2]
  obtain r s where rs: "fetchUserStats net_down ''ghost'' 2 = (r, s)"
    and j: "jobsApplied r = 2"
    and z: "error r \<noteq> None \<longrightarrow> easy r = 0 \<and> medium r = 0 \<and> hard r = 0 \<and> total r = 0 \<and> xp r = 0"
    by blast
  from e rs have "error r \<noteq> None" by simp
  with z have "xp r = 0" by blast
  with e j rs show ?thesis by simp
qed

end
